theory Spec2Isabelle
  imports Main
begin

section \<open>CodeGenBase: the region model\<close>

text \<open>
  The enumeration \<open>CodeRegion\<close> of \<open>src/codegen/base.h\<close>, in declaration order.
  Its underlying type is \<open>int\<close>; \<open>region_index\<close> is the enumerator's value, which is
  what the \<open>std::map\<close> of the code buffer compares keys by.
\<close>

datatype CodeRegion =
    header
  | exterior_shared_variable_begin
  | exterior_loop_begin
  | interior_shared_variable_begin
  | interior_loop_begin
  | body
  | interior_loop_end
  | residual_begin
  | residual_body
  | residual_end
  | interior_shared_variable_end
  | exterior_loop_end
  | exterior_shared_variable_end
  | tail

fun region_index :: "CodeRegion \<Rightarrow> nat" where
  "region_index header = 0"
| "region_index exterior_shared_variable_begin = 1"
| "region_index exterior_loop_begin = 2"
| "region_index interior_shared_variable_begin = 3"
| "region_index interior_loop_begin = 4"
| "region_index body = 5"
| "region_index interior_loop_end = 6"
| "region_index residual_begin = 7"
| "region_index residual_body = 8"
| "region_index residual_end = 9"
| "region_index interior_shared_variable_end = 10"
| "region_index exterior_loop_end = 11"
| "region_index exterior_shared_variable_end = 12"
| "region_index tail = 13"

text \<open>All enumerators, by increasing value: the order in which a \<open>std::map\<close> keyed by
  \<open>CodeRegion\<close> is iterated.\<close>

definition all_regions :: "CodeRegion list" where
  "all_regions =
     [header, exterior_shared_variable_begin, exterior_loop_begin,
      interior_shared_variable_begin, interior_loop_begin, body, interior_loop_end,
      residual_begin, residual_body, residual_end, interior_shared_variable_end,
      exterior_loop_end, exterior_shared_variable_end, tail]"

text \<open>\<open>get_region_name\<close>: the table filled by \<open>REGISTER_TYPE\<close> maps every enumerator to
  its own identifier.\<close>

fun get_region_name :: "CodeRegion \<Rightarrow> string" where
  "get_region_name header = ''header''"
| "get_region_name exterior_shared_variable_begin = ''exterior_shared_variable_begin''"
| "get_region_name exterior_loop_begin = ''exterior_loop_begin''"
| "get_region_name interior_shared_variable_begin = ''interior_shared_variable_begin''"
| "get_region_name interior_loop_begin = ''interior_loop_begin''"
| "get_region_name body = ''body''"
| "get_region_name interior_loop_end = ''interior_loop_end''"
| "get_region_name residual_begin = ''residual_begin''"
| "get_region_name residual_body = ''residual_body''"
| "get_region_name residual_end = ''residual_end''"
| "get_region_name interior_shared_variable_end = ''interior_shared_variable_end''"
| "get_region_name exterior_loop_end = ''exterior_loop_end''"
| "get_region_name exterior_shared_variable_end = ''exterior_shared_variable_end''"
| "get_region_name tail = ''tail''"

section \<open>Strings and formatting\<close>

text \<open>The line feed character, which \<open>std::endl\<close> writes and \<open>std::getline\<close> stops at.\<close>

abbreviation newline :: char where
  "newline \<equiv> CHR 0x0A"

text \<open>Decimal digits of a natural number, most significant first.\<close>

fun to_dec :: "nat \<Rightarrow> string" where
  "to_dec n =
     (if n < 10 then [''0123456789'' ! n]
      else to_dec (n div 10) @ [''0123456789'' ! (n mod 10)])"

declare to_dec.simps [simp del]

text \<open>
  The replacement fields \<open>{:04d}\<close> and \<open>{:06d}\<close> of \<open>fmt::format\<close>: decimal, padded with
  zeros to the given width; the sign of a negative number comes first and counts for
  the width; a longer number is not cut.
\<close>

definition fmt_0d :: "nat \<Rightarrow> int \<Rightarrow> string" where
  "fmt_0d w i =
     (let ds = to_dec (nat \<bar>i\<bar>) in
      if i < 0 then CHR ''-'' # replicate (w - 1 - length ds) CHR ''0'' @ ds
      else replicate (w - length ds) CHR ''0'' @ ds)"

text \<open>\<open>std::string::find\<close> with a string argument: the first position at which the
  needle occurs, \<open>None\<close> for \<open>npos\<close>.\<close>

fun starts_with :: "string \<Rightarrow> string \<Rightarrow> bool" where
  "starts_with [] s = True"
| "starts_with (p # ps) [] = False"
| "starts_with (p # ps) (c # cs) = (p = c \<and> starts_with ps cs)"

fun str_find :: "string \<Rightarrow> string \<Rightarrow> nat option" where
  "str_find needle [] = (if needle = [] then Some 0 else None)"
| "str_find needle (c # cs) =
     (if starts_with needle (c # cs) then Some 0
      else map_option Suc (str_find needle cs))"

text \<open>\<open>std::getline\<close> on a fresh stream: the characters before the first line feed.\<close>

definition getline :: "string \<Rightarrow> string" where
  "getline s = takeWhile (\<lambda>c. c \<noteq> newline) s"

section \<open>The generator instance\<close>

text \<open>
  The fields of \<open>CodeGenBase\<close>. \<open>dll\<close> is the handle returned by \<open>dlopen\<close>, \<open>None\<close> for
  the null pointer. \<open>codes\<close> is the \<open>std::map\<close> from region to accumulated text.
\<close>

type_synonym handle = nat

record codegen =
  line_suffix :: string
  folder :: string
  func_name :: string
  num_groups :: int
  id_no :: int
  suffix :: string
  dll :: "handle option"
  codes :: "CodeRegion \<rightharpoonup> string"
  current_code_region :: CodeRegion

text \<open>
  Fatal outcomes. \<open>Assertion_failed\<close> is a failing \<open>TC_ASSERT\<close> (with the asserted
  expression), \<open>Fatal_error\<close> is \<open>TC_ERROR\<close> (with its message), \<open>Format_error\<close> is the
  exception \<open>fmt::format\<close> throws when template and arguments do not fit.
\<close>

datatype error =
    Assertion_failed string
  | Fatal_error string
  | Format_error

subsection \<open>Region scope guards\<close>

text \<open>
  \<open>CodeRegionGuard\<close> holds a pointer to its generator and the region it found. The
  model keeps one generator, passed explicitly, so the guard is its field \<open>previous\<close>.
  \<open>get_region_guard\<close> is the constructor (the guard is built in the caller's variable);
  \<open>guard_destroy\<close> is the destructor.
\<close>

record CodeRegionGuard =
  previous :: CodeRegion

definition get_region_guard :: "codegen \<Rightarrow> CodeRegion \<Rightarrow> CodeRegionGuard \<times> codegen" where
  "get_region_guard cg cr =
     (\<lparr>previous = current_code_region cg\<rparr>, cg\<lparr>current_code_region := cr\<rparr>)"

definition guard_destroy :: "CodeRegionGuard \<Rightarrow> codegen \<Rightarrow> codegen" where
  "guard_destroy g cg = cg\<lparr>current_code_region := previous g\<rparr>"

subsection \<open>Emission\<close>

text \<open>
  \<open>emit\<close>. The formatter \<open>fmt::format\<close> is a parameter: \<open>fmt f args\<close> is the formatted
  text, \<open>None\<close> when it throws. The entry of the active region is created empty when it
  is absent, then the formatted text and \<open>line_suffix\<close> are appended. When the formatter
  throws, the exception leaves \<open>emit\<close> and nothing in this class catches it: the result
  is the error, and the instance the exception leaves behind is not looked at again.
\<close>

definition emit ::
  "(string \<Rightarrow> 'a \<Rightarrow> string option) \<Rightarrow> string \<Rightarrow> 'a \<Rightarrow> codegen \<Rightarrow> error + codegen" where
  "emit fmt f args cg =
     (let r = current_code_region cg;
          cs = (if codes cg r = None then (codes cg)(r \<mapsto> '''') else codes cg)
      in case fmt f args of
           None \<Rightarrow> Inl Format_error
         | Some text \<Rightarrow>
             Inr (cg\<lparr>codes := cs(r \<mapsto> the (cs r) @ text @ line_suffix cg)\<rparr>))"

definition emit_code ::
  "(string \<Rightarrow> 'a \<Rightarrow> string option) \<Rightarrow> string \<Rightarrow> 'a \<Rightarrow> codegen \<Rightarrow> error + codegen" where
  "emit_code fmt f args cg = emit fmt f args cg"

subsection \<open>Scoped regions\<close>

text \<open>
  Generation code as the guards allow it to be written: a statement is a call of \<open>emit\<close>
  or a block \<open>{ auto g = get_region_guard(r); ... }\<close>. The guard is an automatic variable, so it
  is destroyed when its block is left, after every guard created inside the block. When a
  statement throws, the guards are destroyed on the way out and the exception is the result.
\<close>

datatype 'a stmt =
    Emit string 'a
  | Region CodeRegion "'a stmt list"

fun exec :: "(string \<Rightarrow> 'a \<Rightarrow> string option) \<Rightarrow> 'a stmt \<Rightarrow> codegen \<Rightarrow> error + codegen"
  and exec_block ::
    "(string \<Rightarrow> 'a \<Rightarrow> string option) \<Rightarrow> 'a stmt list \<Rightarrow> codegen \<Rightarrow> error + codegen"
  where
  "exec fmt (Emit f args) cg = emit fmt f args cg"
| "exec fmt (Region r ss) cg =
     (case get_region_guard cg r of
        (g, cg1) \<Rightarrow>
          (case exec_block fmt ss cg1 of
             Inl e \<Rightarrow> Inl e
           | Inr cg2 \<Rightarrow> Inr (guard_destroy g cg2)))"
| "exec_block fmt [] cg = Inr cg"
| "exec_block fmt (s # ss) cg =
     (case exec fmt s cg of
        Inl e \<Rightarrow> Inl e
      | Inr cg1 \<Rightarrow> exec_block fmt ss cg1)"

text \<open>An interleaving of emit calls across regions: each call in a block of its own
  region, \<open>{ CODE_REGION_VAR(r); emit(f, args); }\<close>.\<close>

definition emit_in :: "CodeRegion \<times> string \<times> 'a \<Rightarrow> 'a stmt" where
  "emit_in e = (case e of (r, f, args) \<Rightarrow> Region r [Emit f args])"

definition emit_seq ::
  "(string \<Rightarrow> 'a \<Rightarrow> string option) \<Rightarrow> (CodeRegion \<times> string \<times> 'a) list \<Rightarrow> codegen
     \<Rightarrow> error + codegen" where
  "emit_seq fmt es cg = exec_block fmt (map emit_in es) cg"

section \<open>The world outside the instance\<close>

text \<open>
  The file system as a map from paths to contents, and a log of what the process asks of
  its environment: warnings (\<open>TC_WARN\<close>), shell commands (\<open>std::system\<close>), libraries
  opened (\<open>dlopen\<close>) and directories created (\<open>create_directories\<close>).
\<close>

datatype event =
    Warn string
  | System string
  | Dlopen string
  | Create_directories string

record world =
  files :: "string \<rightharpoonup> string"
  events :: "event list"

text \<open>\<open>std::system\<close>: what the command does to the files is the parameter \<open>sys\<close>; the exit
  status is passed to \<open>trash\<close> by every caller in this class, so it is not kept.\<close>

definition system ::
  "(string \<Rightarrow> (string \<rightharpoonup> string) \<Rightarrow> (string \<rightharpoonup> string)) \<Rightarrow> string \<Rightarrow> world \<Rightarrow> world" where
  "system sys cmd w = w\<lparr>files := sys cmd (files w), events := events w @ [System cmd]\<rparr>"

section \<open>Kernel identity and names\<close>

text \<open>
  \<open>get_kernel_id\<close>. The function-local static counter is passed in and returned. The
  assertion keeps it at most 10000, far from the range of \<open>int\<close>, so \<open>id++\<close> never wraps.
\<close>

definition get_kernel_id :: "int \<Rightarrow> error + (int \<times> int)" where
  "get_kernel_id counter =
     (if counter < 10000 then Inr (counter, counter + 1)
      else Inl (Assertion_failed ''id < 10000''))"

text \<open>
  The constructor. It leaves \<open>num_groups\<close> uninitialised: \<open>ng\<close> is whatever value the
  field happens to hold. \<open>suffix\<close> and \<open>codes\<close> are default-constructed (empty).
\<close>

definition CodeGenBase :: "int \<Rightarrow> int \<Rightarrow> world \<Rightarrow> error + (codegen \<times> int \<times> world)" where
  "CodeGenBase counter ng w =
     (case get_kernel_id counter of
        Inl e \<Rightarrow> Inl e
      | Inr (i, counter') \<Rightarrow>
          Inr (\<lparr>line_suffix = [newline],
                folder = ''_tlang_cache/'',
                func_name = ''func'' @ fmt_0d 6 i,
                num_groups = ng,
                id_no = i,
                suffix = '''',
                dll = None,
                codes = Map.empty,
                current_code_region = header\<rparr>,
               counter',
               w\<lparr>events := events w @ [Create_directories ''_tlang_cache/'']\<rparr>))"

text \<open>Constructing \<open>n\<close> instances one after the other.\<close>

fun construct_n :: "nat \<Rightarrow> int \<Rightarrow> int \<Rightarrow> world \<Rightarrow> error + (codegen list \<times> int \<times> world)" where
  "construct_n 0 counter ng w = Inr ([], counter, w)"
| "construct_n (Suc n) counter ng w =
     (case CodeGenBase counter ng w of
        Inl e \<Rightarrow> Inl e
      | Inr (cg, counter1, w1) \<Rightarrow>
          (case construct_n n counter1 ng w1 of
             Inl e \<Rightarrow> Inl e
           | Inr (cgs, counter2, w2) \<Rightarrow> Inr (cg # cgs, counter2, w2)))"

definition get_source_name :: "codegen \<Rightarrow> string" where
  "get_source_name cg = ''tmp'' @ fmt_0d 4 (id_no cg) @ ''.'' @ suffix cg"

text \<open>\<open>get_library_fn\<close>: the branch is chosen at compile time by \<open>TC_PLATFORM_OSX\<close>.\<close>

datatype platform = OSX | Other_platform

fun get_library_fn :: "platform \<Rightarrow> codegen \<Rightarrow> string" where
  "get_library_fn OSX cg = folder cg @ ''/tmp'' @ fmt_0d 4 (id_no cg) @ ''.dylib''"
| "get_library_fn Other_platform cg = folder cg @ ''/'' @ get_source_name cg @ ''.so''"

section \<open>Writing the source file\<close>

text \<open>The entries of the code buffer in the order a range-for over the \<open>std::map\<close> visits
  them: by increasing key.\<close>

definition codes_items :: "(CodeRegion \<rightharpoonup> string) \<Rightarrow> (CodeRegion \<times> string) list" where
  "codes_items m = List.map_filter (\<lambda>r. map_option (Pair r) (m r)) all_regions"

text \<open>What the loop of \<open>write_source\<close> sends to the output stream.\<close>

definition source_text :: "(CodeRegion \<rightharpoonup> string) \<Rightarrow> string" where
  "source_text m =
     foldl (\<lambda>out k. out @ ''// region '' @ get_region_name (fst k) @ [newline] @ snd k)
       [] (codes_items m)"

text \<open>The first line \<open>write_source\<close> reads: empty when the file cannot be opened.\<close>

definition first_line :: "string option \<Rightarrow> string" where
  "first_line content = (case content of None \<Rightarrow> [] | Some s \<Rightarrow> getline s)"

definition debug_marked :: "string option \<Rightarrow> bool" where
  "debug_marked content = (str_find ''debug'' (first_line content) \<noteq> None)"

text \<open>
  The block that opens the output stream, writes the regions and closes it. Whether a
  \<open>std::ofstream\<close> on a path opens is the parameter \<open>opens\<close>. An opened stream replaces the
  file by what is written to it. The code does not test the stream: when the open fails,
  every write is dropped and no file changes.
\<close>

definition write_regions :: "(string \<Rightarrow> bool) \<Rightarrow> string \<Rightarrow> codegen \<Rightarrow> world \<Rightarrow> world" where
  "write_regions opens fn cg w =
     (if opens fn then w\<lparr>files := (files w)(fn \<mapsto> source_text (codes cg))\<rparr> else w)"

text \<open>
  \<open>write_source\<close>. \<open>get_source_fn\<close> is declared in the class and defined elsewhere: it is
  the parameter \<open>gsf\<close>. The copy and the formatter run whether or not the stream opened.
\<close>

definition write_source ::
  "(string \<Rightarrow> (string \<rightharpoonup> string) \<Rightarrow> (string \<rightharpoonup> string)) \<Rightarrow> (string \<Rightarrow> bool)
     \<Rightarrow> (codegen \<Rightarrow> string) \<Rightarrow> codegen \<Rightarrow> world \<Rightarrow> world" where
  "write_source sys opens gsf cg w =
     (if debug_marked (files w (gsf cg))
      then w\<lparr>events := events w @ [Warn (''Debugging file '' @ gsf cg @ ''. Code overridden.'')]\<rparr>
      else
        let w1 = write_regions opens (gsf cg) cg w;
            w2 = system sys (''cp '' @ gsf cg @ '' '' @ gsf cg @ ''_unformated'') w1
        in system sys (''clang-format -i '' @ gsf cg) w2)"

section \<open>Loading the library\<close>

text \<open>
  The dynamic loader is a pair of parameters: \<open>dlopen path\<close> is the handle, or the
  message \<open>dlerror\<close> gives when the handle is null; \<open>dlsym h name\<close> is the address of the
  symbol, \<open>None\<close> for null. \<open>TC_ERROR\<close> does not return.
\<close>

type_synonym addr = nat

definition load_dll ::
  "platform \<Rightarrow> (string \<Rightarrow> string + handle) \<Rightarrow> codegen \<Rightarrow> world \<Rightarrow> error + (codegen \<times> world)" where
  "load_dll p dlopen cg w =
     (let path = ''./'' @ get_library_fn p cg;
          w1 = w\<lparr>events := events w @ [Dlopen path]\<rparr>
      in case dlopen path of
           Inl msg \<Rightarrow> Inl (Fatal_error msg)
         | Inr h \<Rightarrow> Inr (cg\<lparr>dll := Some h\<rparr>, w1))"

definition load_function_named ::
  "platform \<Rightarrow> (string \<Rightarrow> string + handle) \<Rightarrow> (handle \<Rightarrow> string \<Rightarrow> addr option) \<Rightarrow> string
     \<Rightarrow> codegen \<Rightarrow> world \<Rightarrow> error + (addr \<times> codegen \<times> world)" where
  "load_function_named p dlopen dlsym name cg w =
     (case (if dll cg = None then load_dll p dlopen cg w else Inr (cg, w)) of
        Inl e \<Rightarrow> Inl e
      | Inr (cg1, w1) \<Rightarrow>
          (case dlsym (the (dll cg1)) name of
             None \<Rightarrow> Inl (Assertion_failed ''ret != nullptr'')
           | Some a \<Rightarrow> Inr (a, cg1, w1)))"

definition load_function ::
  "platform \<Rightarrow> (string \<Rightarrow> string + handle) \<Rightarrow> (handle \<Rightarrow> string \<Rightarrow> addr option)
     \<Rightarrow> codegen \<Rightarrow> world \<Rightarrow> error + (addr \<times> codegen \<times> world)" where
  "load_function p dlopen dlsym cg w = load_function_named p dlopen dlsym (func_name cg) cg w"

text \<open>Calling \<open>load_function\<close> on the same instance \<open>k\<close> times in a row.\<close>

fun load_function_times ::
  "nat \<Rightarrow> platform \<Rightarrow> (string \<Rightarrow> string + handle) \<Rightarrow> (handle \<Rightarrow> string \<Rightarrow> addr option)
     \<Rightarrow> codegen \<Rightarrow> world \<Rightarrow> error + (addr list \<times> codegen \<times> world)" where
  "load_function_times 0 p dlopen dlsym cg w = Inr ([], cg, w)"
| "load_function_times (Suc k) p dlopen dlsym cg w =
     (case load_function p dlopen dlsym cg w of
        Inl e \<Rightarrow> Inl e
      | Inr (a, cg1, w1) \<Rightarrow>
          (case load_function_times k p dlopen dlsym cg1 w1 of
             Inl e \<Rightarrow> Inl e
           | Inr (as, cg2, w2) \<Rightarrow> Inr (a # as, cg2, w2)))"

section \<open>Example inputs\<close>

text \<open>A world with no files and nothing logged.\<close>

definition empty_world :: world where
  "empty_world = \<lparr>files = Map.empty, events = []\<rparr>"

text \<open>A formatter for templates without replacement fields and no arguments: the text is
  the template.\<close>

definition plain_fmt :: "string \<Rightarrow> unit \<Rightarrow> string option" where
  "plain_fmt f args = Some f"

text \<open>The instance the constructor builds when the counter is at 7.\<close>

definition kernel7 :: codegen where
  "kernel7 = \<lparr>line_suffix = [newline], folder = ''_tlang_cache/'',
           func_name = ''func000007'', num_groups = 0, id_no = 7, suffix = [],
           dll = None, codes = Map.empty, current_code_region = header\<rparr>"

text \<open>That instance inside a guard for \<open>body\<close>, a block with a further guard nested in it,
  and the instance as that block leaves it when run under a guard for \<open>residual_begin\<close>.\<close>

definition in_body :: codegen where
  "in_body = kernel7\<lparr>current_code_region := body\<rparr>"

definition nested_block :: "unit stmt list" where
  "nested_block = [Emit ''b;'' (), Region tail [Emit ''c;'' ()]]"

definition after_nested_block :: codegen where
  "after_nested_block =
     kernel7\<lparr>current_code_region := residual_begin,
             codes := [residual_begin \<mapsto> ''b;'' @ [newline], tail \<mapsto> ''c;'' @ [newline]]\<rparr>"

text \<open>The same instance once a generator for C++ has set its file suffix.\<close>

definition kernel7_cpp :: codegen where
  "kernel7_cpp = kernel7\<lparr>suffix := ''cpp''\<rparr>"

text \<open>
  Modelled from the spec: \<open>get_source_fn\<close> is declared in \<open>base.h\<close> and its definition is
  not among the sources. The spec gives the path of the source file as the folder followed
  by the source file name. The theorems below hold for any path function; this one is
  used in the examples.
\<close>

definition get_source_fn :: "codegen \<Rightarrow> string" where
  "get_source_fn cg = folder cg @ get_source_name cg"

text \<open>A machine on which neither \<open>cp\<close> nor \<open>clang-format\<close> changes any file.\<close>

definition no_tools :: "string \<Rightarrow> (string \<rightharpoonup> string) \<Rightarrow> (string \<rightharpoonup> string)" where
  "no_tools cmd fs = fs"

text \<open>A machine on which a file can be opened for writing when it is in the cache folder,
  and a machine on which no file can.\<close>

definition opens_in_cache :: "string \<Rightarrow> bool" where
  "opens_in_cache path = starts_with ''_tlang_cache/'' path"

definition opens_nothing :: "string \<Rightarrow> bool" where
  "opens_nothing path = False"

text \<open>A world in which the source file of kernel 7 has been edited by hand and marked.\<close>

definition hand_edited_world :: world where
  "hand_edited_world =
     \<lparr>files = [''_tlang_cache/tmp0007.cpp'' \<mapsto> ''// debug copy'' @ [newline] @ ''int x;''],
      events = []\<rparr>"

text \<open>A loader that knows one library, the one compiled for kernel 7 on Linux, exporting
  the function of kernel 7; and a loader that knows the library but finds no symbol in it.\<close>

definition one_library :: "string \<Rightarrow> string + handle" where
  "one_library path =
     (if path = ''./_tlang_cache//tmp0007.cpp.so'' then Inr 3
      else Inl (path @ '': cannot open shared object file''))"

definition one_symbol :: "handle \<Rightarrow> string \<Rightarrow> addr option" where
  "one_symbol h name = (if h = 3 \<and> name = ''func000007'' then Some 4096 else None)"

definition no_symbol :: "handle \<Rightarrow> string \<Rightarrow> addr option" where
  "no_symbol h name = None"

text \<open>Kernel 7 with a line written to \<open>body\<close> first and a line written to \<open>header\<close> second.\<close>

definition body_then_header :: "(CodeRegion \<times> string \<times> unit) list" where
  "body_then_header = [(body, ''x = 1;'', ()), (header, ''y = 2;'', ())]"

definition header_then_body :: "(CodeRegion \<times> string \<times> unit) list" where
  "header_then_body = [(header, ''y = 2;'', ()), (body, ''x = 1;'', ())]"

definition two_regions :: codegen where
  "two_regions =
     kernel7_cpp\<lparr>codes := [body \<mapsto> ''x = 1;'' @ [newline], header \<mapsto> ''y = 2;'' @ [newline]]\<rparr>"

section \<open>Properties\<close>

subsection \<open>Emission and scopes change the code buffer only\<close>

lemma emit_Inr:
  "emit fmt f args cg = Inr cg' \<longleftrightarrow>
     (\<exists>text. fmt f args = Some text \<and>
        cg' = cg\<lparr>codes := (codes cg)(current_code_region cg \<mapsto>
                 (case codes cg (current_code_region cg) of None \<Rightarrow> [] | Some old \<Rightarrow> old)
                   @ text @ line_suffix cg)\<rparr>)"
  by (auto simp: emit_def Let_def split: option.splits)

lemma emit_only_codes: "emit fmt f args cg = Inr cg' \<Longrightarrow> cg' = cg\<lparr>codes := codes cg'\<rparr>"
  by (auto simp: emit_Inr)

lemma exec_only_codes:
  "exec fmt s cg = Inr cg' \<Longrightarrow> cg' = cg\<lparr>codes := codes cg'\<rparr>"
  "exec_block fmt ss cg = Inr cg' \<Longrightarrow> cg' = cg\<lparr>codes := codes cg'\<rparr>"
proof (induction fmt s cg and fmt ss cg arbitrary: cg' and cg' rule: exec_exec_block.induct)
  case (1 fmt f args cg)
  then show ?case by (simp add: emit_only_codes)
next
  case (2 fmt r ss cg)
  from "2.prems" obtain cg2 where
    run: "exec_block fmt ss (cg\<lparr>current_code_region := r\<rparr>) = Inr cg2" and
    res: "cg' = guard_destroy \<lparr>previous = current_code_region cg\<rparr> cg2"
    by (auto simp: get_region_guard_def split: sum.splits)
  have "cg2 = cg\<lparr>current_code_region := r, codes := codes cg2\<rparr>"
    using "2.IH"[OF _ run] by (simp add: get_region_guard_def)
  then have "guard_destroy \<lparr>previous = current_code_region cg\<rparr> cg2 = cg\<lparr>codes := codes cg2\<rparr>"
    by (cases cg; cases cg2) (simp add: guard_destroy_def)
  then show ?case using res by (simp add: guard_destroy_def)
next
  case (3 fmt cg)
  then show ?case by simp
next
  case (4 fmt s ss cg)
  from "4.prems" obtain cg1 where
    a: "exec fmt s cg = Inr cg1" and b: "exec_block fmt ss cg1 = Inr cg'"
    by (auto split: sum.splits)
  have "cg1 = cg\<lparr>codes := codes cg1\<rparr>" using "4.IH"(1)[OF a] .
  moreover have "cg' = cg1\<lparr>codes := codes cg'\<rparr>" using "4.IH"(2)[OF a b] .
  ultimately show ?case by (cases cg; cases cg1; cases cg') simp
qed


subsection \<open>Kernel identity\<close>

lemma get_kernel_id_Inr:
  "get_kernel_id c = Inr (i, c') \<longleftrightarrow> c < 10000 \<and> i = c \<and> c' = c + 1"
  by (auto simp: get_kernel_id_def)

lemma CodeGenBase_Inr:
  "CodeGenBase c ng w = Inr (cg, c', w') \<longleftrightarrow>
     c < 10000 \<and> c' = c + 1 \<and>
     w' = w\<lparr>events := events w @ [Create_directories ''_tlang_cache/'']\<rparr> \<and>
     cg = \<lparr>line_suffix = [newline], folder = ''_tlang_cache/'',
           func_name = ''func'' @ fmt_0d 6 c, num_groups = ng, id_no = c, suffix = [],
           dll = None, codes = Map.empty, current_code_region = header\<rparr>"
  by (auto simp: CodeGenBase_def get_kernel_id_def)

lemma CodeGenBase_Inl:
  "CodeGenBase c ng w = Inl e \<longleftrightarrow> \<not> c < 10000 \<and> e = Assertion_failed ''id < 10000''"
  by (auto simp: CodeGenBase_def get_kernel_id_def)

lemma construct_n_ok:
  "c + int n \<le> 10000 \<Longrightarrow>
     \<exists>cgs w'. construct_n n c ng w = Inr (cgs, c + int n, w') \<and>
              map id_no cgs = map (\<lambda>k. c + int k) [0..<n]"
proof (induction n arbitrary: c w)
  case 0
  then show ?case by simp
next
  case (Suc n)
  have lt: "c < 10000" using Suc.prems by simp
  obtain cg w1 where step: "CodeGenBase c ng w = Inr (cg, c + 1, w1)" and idc: "id_no cg = c"
    using lt by (simp add: CodeGenBase_def get_kernel_id_def)
  have "(c + 1) + int n \<le> 10000" using Suc.prems by simp
  from Suc.IH[OF this, of w1] obtain cgs w' where
    rest: "construct_n n (c + 1) ng w1 = Inr (cgs, c + 1 + int n, w')" and
    ids: "map id_no cgs = map (\<lambda>k. c + 1 + int k) [0..<n]"
    by blast
  have "construct_n (Suc n) c ng w = Inr (cg # cgs, c + int (Suc n), w')"
    using step rest by (simp add: add.commute add.left_commute)
  moreover have "map id_no (cg # cgs) = map (\<lambda>k. c + int k) [0..<Suc n]"
  proof -
    have "map (\<lambda>k. c + int k) [0..<Suc n] = c # map (\<lambda>k. c + int (Suc k)) [0..<n]"
      by (simp add: upt_conv_Cons map_Suc_upt[symmetric] del: upt_Suc)
    then show ?thesis using idc ids by (simp add: add.commute add.left_commute)
  qed
  ultimately show ?case by blast
qed

lemma construct_n_fails:
  "c \<le> 10000 \<Longrightarrow> 10000 < c + int n \<Longrightarrow>
     construct_n n c ng w = Inl (Assertion_failed ''id < 10000'')"
proof (induction n arbitrary: c w)
  case 0
  then show ?case by simp
next
  case (Suc n)
  show ?case
  proof (cases "c < 10000")
    case True
    then obtain cg w1 where step: "CodeGenBase c ng w = Inr (cg, c + 1, w1)"
      by (simp add: CodeGenBase_def get_kernel_id_def)
    have "c + 1 \<le> 10000" "10000 < (c + 1) + int n" using True Suc.prems by simp_all
    from Suc.IH[OF this] have "construct_n n (c + 1) ng w1 = Inl (Assertion_failed ''id < 10000'')" .
    then show ?thesis using step by simp
  next
    case False
    then have "CodeGenBase c ng w = Inl (Assertion_failed ''id < 10000'')"
      by (simp add: CodeGenBase_def get_kernel_id_def)
    then show ?thesis by simp
  qed
qed

text \<open>
  C4. Constructing \<open>n\<close> instances one after the other, from a counter at 0, succeeds for
  every \<open>n\<close> up to 10000 and gives the ids \<open>0, 1, ..., n - 1\<close>: distinct and strictly
  increasing. With more than 10000 constructions the run fails with the assertion of
  \<open>get_kernel_id\<close>: once the counter has reached 10000 the allocation fails, and so does the
  constructor.
\<close>

theorem kernel_ids_sequential:
  "(n \<le> 10000 \<longrightarrow>
      (\<exists>cgs w'. construct_n n 0 ng w = Inr (cgs, int n, w') \<and>
                map id_no cgs = map int [0..<n] \<and>
                distinct (map id_no cgs) \<and> sorted_wrt (<) (map id_no cgs))) \<and>
   (10000 < n \<longrightarrow> construct_n n 0 ng w = Inl (Assertion_failed ''id < 10000'')) \<and>
   get_kernel_id 10000 = Inl (Assertion_failed ''id < 10000'') \<and>
   CodeGenBase 10000 ng w = Inl (Assertion_failed ''id < 10000'')"
proof (intro conjI impI)
  assume le: "n \<le> 10000"
  then have "0 + int n \<le> 10000" by simp
  from construct_n_ok[OF this, of ng w] obtain cgs w' where
    run: "construct_n n 0 ng w = Inr (cgs, int n, w')" and ids: "map id_no cgs = map int [0..<n]"
    by auto
  have "distinct (map int [0..<n])" by (simp add: distinct_map)
  moreover have "sorted_wrt (<) (map int [0..<n])"
    by (simp add: sorted_wrt_map sorted_wrt_upt)
  ultimately show "\<exists>cgs w'. construct_n n 0 ng w = Inr (cgs, int n, w') \<and>
                map id_no cgs = map int [0..<n] \<and>
                distinct (map id_no cgs) \<and> sorted_wrt (<) (map id_no cgs)"
    using run ids by auto
next
  assume "10000 < n"
  then have "10000 < 0 + int n" by simp
  then show "construct_n n 0 ng w = Inl (Assertion_failed ''id < 10000'')"
    by (intro construct_n_fails) simp_all
next
  show "get_kernel_id 10000 = Inl (Assertion_failed ''id < 10000'')"
    by (simp add: get_kernel_id_def)
next
  show "CodeGenBase 10000 ng w = Inl (Assertion_failed ''id < 10000'')"
    by (simp add: CodeGenBase_def get_kernel_id_def)
qed

theorem kernel_ids_sequential_witness:
  "(3::nat) \<le> 10000 \<and>
   (\<exists>cgs w'. construct_n 3 0 0 empty_world = Inr (cgs, 3, w') \<and> map id_no cgs = [0, 1, 2]) \<and>
   (10000::nat) < 10001 \<and>
   construct_n 10001 0 0 empty_world = Inl (Assertion_failed ''id < 10000'')"
proof -
  have u: "map int [0..<3] = [0, 1, 2]" by code_simp
  show ?thesis
    using kernel_ids_sequential[of 3 0 empty_world] kernel_ids_sequential[of 10001 0 empty_world]
    unfolding u by auto
qed

subsection \<open>Emission\<close>

text \<open>
  C9. When the formatter gives a text, \<open>emit\<close> succeeds and changes only the entry of the
  active region: the entry becomes its former text (empty when there was no entry), then
  the formatted text, then one line feed. The line terminator is the field \<open>line_suffix\<close>,
  which the constructor sets to a single line feed and nothing in the class assigns again.
  \<open>emit\<close> has no region argument: the region is the field \<open>current_code_region\<close>.
\<close>

theorem emit_appends_line:
  assumes "fmt f args = Some text" and "line_suffix cg = [newline]"
  shows "emit fmt f args cg =
           Inr (cg\<lparr>codes := (codes cg)(current_code_region cg \<mapsto>
                  (case codes cg (current_code_region cg) of None \<Rightarrow> [] | Some old \<Rightarrow> old)
                    @ text @ [newline])\<rparr>)"
  using assms by (simp add: emit_def Let_def split: option.splits)

theorem emit_appends_line_witness:
  "plain_fmt ''x = 1;'' () = Some ''x = 1;'' \<and>
   line_suffix (kernel7\<lparr>current_code_region := body, codes := [body \<mapsto> ''a;'' @ [newline]]\<rparr>) = [newline] \<and>
   emit plain_fmt ''x = 1;'' () (kernel7\<lparr>current_code_region := body, codes := [body \<mapsto> ''a;'' @ [newline]]\<rparr>) =
     Inr (kernel7\<lparr>current_code_region := body,
                  codes := [body \<mapsto> ''a;'' @ [newline] @ ''x = 1;'' @ [newline]]\<rparr>) \<and>
   emit plain_fmt ''x = 1;'' () kernel7 =
     Inr (kernel7\<lparr>codes := [header \<mapsto> ''x = 1;'' @ [newline]]\<rparr>)"
  using emit_appends_line[of plain_fmt "''x = 1;''" "()" "''x = 1;''"
          "kernel7\<lparr>current_code_region := body, codes := [body \<mapsto> ''a;'' @ [newline]]\<rparr>"]
        emit_appends_line[of plain_fmt "''x = 1;''" "()" "''x = 1;''" kernel7]
  by (simp add: plain_fmt_def kernel7_def)

lemma emits_only:
  "list_all2 (\<lambda>e t. fmt (fst e) (snd e) = Some t) es texts \<Longrightarrow>
     exec_block fmt (map (\<lambda>e. Emit (fst e) (snd e)) es) cg =
       Inr (if es = [] then cg
            else cg\<lparr>codes := (codes cg)(current_code_region cg \<mapsto>
                   (case codes cg (current_code_region cg) of None \<Rightarrow> [] | Some old \<Rightarrow> old)
                     @ concat (map (\<lambda>t. t @ line_suffix cg) texts))\<rparr>)"
proof (induction es texts arbitrary: cg rule: list_all2_induct)
  case Nil
  then show ?case by simp
next
  case (Cons e es t texts)
  let ?r = "current_code_region cg"
  let ?old = "case codes cg ?r of None \<Rightarrow> [] | Some old \<Rightarrow> old"
  let ?cg1 = "cg\<lparr>codes := (codes cg)(?r \<mapsto> ?old @ t @ line_suffix cg)\<rparr>"
  have step: "emit fmt (fst e) (snd e) cg = Inr ?cg1"
    using Cons.hyps(1) by (simp add: emit_def Let_def split: option.splits)
  show ?case
  proof (cases "es = []")
    case True
    then have "texts = []" using Cons.hyps(2) by simp
    then show ?thesis using True step by simp
  next
    case False
    then show ?thesis using step Cons.IH[of ?cg1] by simp
  qed
qed

subsection \<open>The constructed instance\<close>

lemma fmt_0d_6_7: "fmt_0d 6 7 = ''000007''"
  by code_simp

lemma CodeGenBase_7:
  "CodeGenBase 7 0 empty_world =
     Inr (kernel7, 8, \<lparr>files = Map.empty, events = [Create_directories ''_tlang_cache/'']\<rparr>)"
  by (simp add: CodeGenBase_def get_kernel_id_def kernel7_def empty_world_def fmt_0d_6_7)

text \<open>
  C10. An instance the constructor returns has \<open>header\<close> as its active region, a null
  library handle and an empty code buffer; the constructor logs the creation of the cache
  folder and nothing else, so it opens no library. A run of emit calls with no guard
  leaves one entry, for \<open>header\<close>, holding the formatted lines in order.
\<close>

theorem constructed_instance_initial_state:
  assumes "CodeGenBase counter ng w = Inr (cg, counter', w')"
      and "list_all2 (\<lambda>e t. fmt (fst e) (snd e) = Some t) es texts"
  shows "current_code_region cg = header \<and> dll cg = None \<and> codes cg = Map.empty \<and>
         events w' = events w @ [Create_directories ''_tlang_cache/''] \<and>
         files w' = files w \<and>
         exec_block fmt (map (\<lambda>e. Emit (fst e) (snd e)) es) cg =
           Inr (if es = [] then cg
                else cg\<lparr>codes := [header \<mapsto> concat (map (\<lambda>t. t @ [newline]) texts)]\<rparr>)"
proof -
  from assms(1) have
    cg: "cg = \<lparr>line_suffix = [newline], folder = ''_tlang_cache/'',
           func_name = ''func'' @ fmt_0d 6 counter, num_groups = ng, id_no = counter,
           suffix = [], dll = None, codes = Map.empty, current_code_region = header\<rparr>" and
    w': "w' = w\<lparr>events := events w @ [Create_directories ''_tlang_cache/'']\<rparr>"
    by (simp_all add: CodeGenBase_Inr)
  have "exec_block fmt (map (\<lambda>e. Emit (fst e) (snd e)) es) cg =
           Inr (if es = [] then cg
                else cg\<lparr>codes := [header \<mapsto> concat (map (\<lambda>t. t @ [newline]) texts)]\<rparr>)"
    using emits_only[OF assms(2), of cg] by (simp add: cg)
  then show ?thesis by (simp add: cg w')
qed

theorem constructed_instance_initial_state_witness:
  "CodeGenBase 7 0 empty_world =
     Inr (kernel7, 8, \<lparr>files = Map.empty, events = [Create_directories ''_tlang_cache/'']\<rparr>) \<and>
   list_all2 (\<lambda>e t. plain_fmt (fst e) (snd e) = Some t)
     [(''x = 1;'', ()), (''y = 2;'', ())] [''x = 1;'', ''y = 2;''] \<and>
   current_code_region kernel7 = header \<and> dll kernel7 = None \<and>
   exec_block plain_fmt [Emit ''x = 1;'' (), Emit ''y = 2;'' ()] kernel7 =
     Inr (kernel7\<lparr>codes := [header \<mapsto> ''x = 1;'' @ [newline] @ ''y = 2;'' @ [newline]]\<rparr>)"
proof -
  have h: "list_all2 (\<lambda>e t. plain_fmt (fst e) (snd e) = Some t)
     [(''x = 1;'', ()), (''y = 2;'', ())] [''x = 1;'', ''y = 2;'']"
    by (simp add: plain_fmt_def)
  show ?thesis
    using constructed_instance_initial_state[OF CodeGenBase_7 h] CodeGenBase_7 h by simp
qed

subsection \<open>Region scope guards\<close>

lemma exec_block_fields:
  assumes "exec_block fmt ss cg = Inr cg'"
  shows "current_code_region cg' = current_code_region cg"
    and "line_suffix cg' = line_suffix cg"
    and "dll cg' = dll cg"
  using exec_only_codes(2)[OF assms] by (cases cg; cases cg'; simp)+

text \<open>
  C3. Take any instance, a guard \<open>g\<close> created on it for region \<open>r\<close>, and any block run
  while \<open>g\<close> is alive, with guards nested in it to any depth. When the block ends the
  active region is \<open>r\<close> again: every guard of the block has restored what it found.
  Destroying \<open>g\<close> then restores the region that was active just before \<open>g\<close> was created,
  and the next \<open>emit\<close> appends to the entry of that region.
\<close>

theorem region_guard_restores:
  assumes "get_region_guard cg r = (g, cg1)"
      and "exec_block fmt ss cg1 = Inr cg2"
      and "fmt f args = Some text"
  shows "current_code_region cg1 = r \<and>
         current_code_region cg2 = r \<and>
         current_code_region (guard_destroy g cg2) = current_code_region cg \<and>
         exec fmt (Region r ss) cg = Inr (guard_destroy g cg2) \<and>
         emit fmt f args (guard_destroy g cg2) =
           Inr ((guard_destroy g cg2)\<lparr>codes := (codes cg2)(current_code_region cg \<mapsto>
                  (case codes cg2 (current_code_region cg) of None \<Rightarrow> [] | Some old \<Rightarrow> old)
                    @ text @ line_suffix cg)\<rparr>)"
proof -
  from assms(1) have g: "g = \<lparr>previous = current_code_region cg\<rparr>"
    and cg1: "cg1 = cg\<lparr>current_code_region := r\<rparr>"
    by (simp_all add: get_region_guard_def)
  have r1: "current_code_region cg1 = r" by (simp add: cg1)
  have r2: "current_code_region cg2 = r"
    using exec_block_fields(1)[OF assms(2)] r1 by simp
  have r3: "current_code_region (guard_destroy g cg2) = current_code_region cg"
    by (simp add: guard_destroy_def g)
  have ls: "line_suffix (guard_destroy g cg2) = line_suffix cg"
    using exec_block_fields(2)[OF assms(2)] by (simp add: guard_destroy_def cg1)
  have cs: "codes (guard_destroy g cg2) = codes cg2"
    by (simp add: guard_destroy_def)
  have ex: "exec fmt (Region r ss) cg = Inr (guard_destroy g cg2)"
    using assms(1,2) by simp
  have em: "emit fmt f args (guard_destroy g cg2) =
           Inr ((guard_destroy g cg2)\<lparr>codes := (codes cg2)(current_code_region cg \<mapsto>
                  (case codes cg2 (current_code_region cg) of None \<Rightarrow> [] | Some old \<Rightarrow> old)
                    @ text @ line_suffix cg)\<rparr>)"
    using assms(3) r3 ls cs by (simp add: emit_def Let_def split: option.splits)
  show ?thesis using r1 r2 r3 ex em by simp
qed

theorem region_guard_restores_witness:
  "get_region_guard in_body residual_begin =
     (\<lparr>previous = body\<rparr>, in_body\<lparr>current_code_region := residual_begin\<rparr>) \<and>
   exec_block plain_fmt nested_block (in_body\<lparr>current_code_region := residual_begin\<rparr>) =
     Inr after_nested_block \<and>
   plain_fmt ''d;'' () = Some ''d;'' \<and>
   current_code_region (guard_destroy \<lparr>previous = body\<rparr> after_nested_block) = body \<and>
   emit plain_fmt ''d;'' () (guard_destroy \<lparr>previous = body\<rparr> after_nested_block) =
     Inr (kernel7\<lparr>current_code_region := body,
                  codes := [residual_begin \<mapsto> ''b;'' @ [newline], tail \<mapsto> ''c;'' @ [newline],
                            body \<mapsto> ''d;'' @ [newline]]\<rparr>)"
proof -
  have a: "get_region_guard in_body residual_begin =
     (\<lparr>previous = body\<rparr>, in_body\<lparr>current_code_region := residual_begin\<rparr>)"
    by (simp add: get_region_guard_def in_body_def)
  have b: "exec_block plain_fmt nested_block (in_body\<lparr>current_code_region := residual_begin\<rparr>) =
     Inr after_nested_block"
    by (simp add: nested_block_def in_body_def after_nested_block_def kernel7_def emit_def
        plain_fmt_def get_region_guard_def guard_destroy_def)
  have c: "plain_fmt ''d;'' () = Some ''d;''"
    by (simp add: plain_fmt_def)
  show ?thesis
    using region_guard_restores[OF a b c] a b c
    by (simp add: in_body_def after_nested_block_def kernel7_def guard_destroy_def)
qed

subsection \<open>Artifact names\<close>

lemma fmt_0d_4_7: "fmt_0d 4 7 = ''0007''"
  by code_simp

text \<open>
  C2, as stated, fails. For kernel 7 with suffix \<open>cpp\<close> the source file name is
  \<open>tmp0007.cpp\<close>; the path of the OSX branch is \<open>_tlang_cache//tmp0007.dylib\<close>, which does
  not contain the source file name, and it differs from the path of the other branch,
  \<open>_tlang_cache//tmp0007.cpp.so\<close>, in more than the extension.
\<close>

theorem library_fn_osx_counterexample:
  "get_source_name kernel7_cpp = ''tmp0007.cpp'' \<and>
   get_library_fn OSX kernel7_cpp = ''_tlang_cache//tmp0007.dylib'' \<and>
   get_library_fn Other_platform kernel7_cpp = ''_tlang_cache//tmp0007.cpp.so'' \<and>
   \<not> starts_with (folder kernel7_cpp @ ''/'' @ get_source_name kernel7_cpp)
         (get_library_fn OSX kernel7_cpp)"
  by (simp add: kernel7_cpp_def kernel7_def get_source_name_def fmt_0d_4_7)

text \<open>
  C2, amended. On the branch for other platforms the path is the folder, a slash, the
  source file name and \<open>.so\<close>. On the OSX branch it is the folder, a slash, \<open>tmp\<close>, the id
  padded to four digits and \<open>.dylib\<close>: the source file name without its dot and suffix.
  The two paths agree up to the padded id and are never equal.
\<close>

theorem library_fn_by_platform:
  "get_library_fn Other_platform cg = folder cg @ ''/'' @ get_source_name cg @ ''.so'' \<and>
   get_library_fn Other_platform cg =
     (folder cg @ ''/tmp'' @ fmt_0d 4 (id_no cg)) @ ''.'' @ suffix cg @ ''.so'' \<and>
   get_library_fn OSX cg = (folder cg @ ''/tmp'' @ fmt_0d 4 (id_no cg)) @ ''.dylib'' \<and>
   get_library_fn OSX cg \<noteq> get_library_fn Other_platform cg"
proof -
  have "last (get_library_fn OSX cg) = CHR ''b''" by simp
  moreover have "last (get_library_fn Other_platform cg) = CHR ''o''" by simp
  ultimately have "get_library_fn OSX cg \<noteq> get_library_fn Other_platform cg"
    by auto
  then show ?thesis by (simp add: get_source_name_def)
qed

subsection \<open>Searching a string\<close>

lemma starts_with_iff: "starts_with p s \<longleftrightarrow> (\<exists>post. s = p @ post)"
  by (induction p s rule: starts_with.induct) auto

lemma str_find_None_iff: "str_find n s = None \<longleftrightarrow> \<not> (\<exists>pre post. s = pre @ n @ post)"
proof (induction s)
  case Nil
  then show ?case by auto
next
  case (Cons c cs)
  show ?case
  proof (cases "starts_with n (c # cs)")
    case True
    then obtain post where "c # cs = [] @ n @ post" by (auto simp: starts_with_iff)
    then have "\<exists>pre post. c # cs = pre @ n @ post" by blast
    then show ?thesis using True by simp
  next
    case False
    have "(\<exists>pre post. c # cs = pre @ n @ post) \<longleftrightarrow> (\<exists>pre post. cs = pre @ n @ post)"
    proof
      assume "\<exists>pre post. c # cs = pre @ n @ post"
      then obtain pre post where e: "c # cs = pre @ n @ post" by blast
      show "\<exists>pre post. cs = pre @ n @ post"
      proof (cases pre)
        case Nil
        then have "starts_with n (c # cs)" using e by (auto simp: starts_with_iff)
        then show ?thesis using False by simp
      next
        case (Cons a pre')
        then have "cs = pre' @ n @ post" using e by simp
        then show ?thesis by blast
      qed
    next
      assume "\<exists>pre post. cs = pre @ n @ post"
      then obtain pre post where "cs = pre @ n @ post" by blast
      then have "c # cs = (c # pre) @ n @ post" by simp
      then show "\<exists>pre post. c # cs = pre @ n @ post" by blast
    qed
    then show ?thesis using False Cons.IH by simp
  qed
qed

subsection \<open>The debug override\<close>

text \<open>
  C5. When the target file exists and the word \<open>debug\<close> occurs in its first line,
  \<open>write_source\<close> returns after logging one warning: every file is as it was, and no shell
  command is run, neither the copy nor the formatter.
\<close>

theorem write_source_debug_override:
  assumes "files w (gsf cg) = Some content"
      and "getline content = pre @ ''debug'' @ post"
  shows "write_source sys opens gsf cg w =
           w\<lparr>events := events w @ [Warn (''Debugging file '' @ gsf cg @ ''. Code overridden.'')]\<rparr> \<and>
         files (write_source sys opens gsf cg w) = files w \<and>
         events (write_source sys opens gsf cg w) =
           events w @ [Warn (''Debugging file '' @ gsf cg @ ''. Code overridden.'')]"
proof -
  have "str_find ''debug'' (getline content) \<noteq> None"
    using assms(2) str_find_None_iff[of "''debug''" "getline content"] by blast
  then have "debug_marked (files w (gsf cg))"
    using assms(1) by (simp add: debug_marked_def first_line_def)
  then show ?thesis by (simp add: write_source_def)
qed

theorem write_source_debug_override_witness:
  "files hand_edited_world (get_source_fn kernel7_cpp) =
     Some (''// debug copy'' @ [newline] @ ''int x;'') \<and>
   getline (''// debug copy'' @ [newline] @ ''int x;'') = ''// '' @ ''debug'' @ '' copy'' \<and>
   files (write_source no_tools opens_in_cache get_source_fn kernel7_cpp hand_edited_world) =
     files hand_edited_world \<and>
   events (write_source no_tools opens_in_cache get_source_fn kernel7_cpp hand_edited_world) =
     [Warn ''Debugging file _tlang_cache/tmp0007.cpp. Code overridden.'']"
proof -
  have fn: "get_source_fn kernel7_cpp = ''_tlang_cache/tmp0007.cpp''"
    by (simp add: get_source_fn_def get_source_name_def kernel7_cpp_def kernel7_def fmt_0d_4_7)
  have a: "files hand_edited_world (get_source_fn kernel7_cpp) =
     Some (''// debug copy'' @ [newline] @ ''int x;'')"
    by (simp add: fn hand_edited_world_def)
  have b: "getline (''// debug copy'' @ [newline] @ ''int x;'') = ''// '' @ ''debug'' @ '' copy''"
    by (simp add: getline_def)
  show ?thesis
    using write_source_debug_override[where w = hand_edited_world and gsf = get_source_fn
            and cg = kernel7_cpp and content = "''// debug copy'' @ [newline] @ ''int x;''"
            and pre = "''// ''" and post = "'' copy''" and sys = no_tools
            and opens = opens_in_cache] a b
    by (simp add: fn hand_edited_world_def)
qed

subsection \<open>Loading\<close>

lemma load_function_named_cached:
  "dll cg = Some h \<Longrightarrow>
     load_function_named p dlopen dlsym name cg w =
       (case dlsym h name of
          None \<Rightarrow> Inl (Assertion_failed ''ret != nullptr'')
        | Some a \<Rightarrow> Inr (a, cg, w))"
  by (simp add: load_function_named_def)

lemma load_function_named_first:
  "dll cg = None \<Longrightarrow>
     load_function_named p dlopen dlsym name cg w =
       (case dlopen (''./'' @ get_library_fn p cg) of
          Inl msg \<Rightarrow> Inl (Fatal_error msg)
        | Inr h \<Rightarrow>
            (case dlsym h name of
               None \<Rightarrow> Inl (Assertion_failed ''ret != nullptr'')
             | Some a \<Rightarrow>
                 Inr (a, cg\<lparr>dll := Some h\<rparr>,
                      w\<lparr>events := events w @ [Dlopen (''./'' @ get_library_fn p cg)]\<rparr>)))"
  by (simp add: load_function_named_def load_dll_def Let_def split: sum.splits option.splits)

lemma load_function_times_cached:
  "dll cg = Some h \<Longrightarrow> load_function_times k p dlopen dlsym cg w = Inr (as, cg', w') \<Longrightarrow>
     cg' = cg \<and> w' = w \<and> (\<forall>a \<in> set as. dlsym h (func_name cg) = Some a) \<and> length as = k"
proof (induction k arbitrary: as)
  case 0
  then show ?case by simp
next
  case (Suc k)
  from Suc.prems(2) obtain a as' where
    one: "load_function p dlopen dlsym cg w = Inr (a, cg, w)" and
    sym: "dlsym h (func_name cg) = Some a" and
    rest: "load_function_times k p dlopen dlsym cg w = Inr (as', cg', w')" and
    as: "as = a # as'"
    using Suc.prems(1)
    by (auto simp: load_function_def load_function_named_cached split: option.splits sum.splits)
  from Suc.IH[OF Suc.prems(1) rest] show ?case using sym as by simp
qed

text \<open>
  C6. The constructor leaves the handle null and logs no \<open>dlopen\<close>. On an instance whose
  handle is still null, a run of one or more successful \<open>load_function\<close> calls logs exactly
  one \<open>dlopen\<close>, made by the first call at the path of the library; the handle it returned is
  kept in the instance, nothing else changes, and every call gives the address \<open>dlsym\<close>
  finds for the function name in that handle.
\<close>

theorem load_function_opens_once:
  assumes "CodeGenBase counter ng w0 = Inr (cg0, counter', w1)"
      and "dll cg = dll cg0"
      and "load_function_times (Suc k) p dlopen dlsym cg w = Inr (as, cg', w')"
  shows "dll cg0 = None \<and>
         events w1 = events w0 @ [Create_directories ''_tlang_cache/''] \<and>
         (\<exists>h a. dlopen (''./'' @ get_library_fn p cg) = Inr h \<and>
                dlsym h (func_name cg) = Some a \<and>
                cg' = cg\<lparr>dll := Some h\<rparr> \<and>
                w' = w\<lparr>events := events w @ [Dlopen (''./'' @ get_library_fn p cg)]\<rparr> \<and>
                as = replicate (Suc k) a)"
proof -
  have null0: "dll cg0 = None" and ev: "events w1 = events w0 @ [Create_directories ''_tlang_cache/'']"
    using assms(1) by (simp_all add: CodeGenBase_Inr)
  have null: "dll cg = None" using assms(2) null0 by simp
  let ?path = "''./'' @ get_library_fn p cg"
  from assms(3) obtain a cg1 w2 as' where
    first: "load_function p dlopen dlsym cg w = Inr (a, cg1, w2)" and
    rest: "load_function_times k p dlopen dlsym cg1 w2 = Inr (as', cg', w')" and
    as: "as = a # as'"
    by (auto split: sum.splits)
  from first obtain h where
    op: "dlopen ?path = Inr h" and sym: "dlsym h (func_name cg) = Some a" and
    cg1: "cg1 = cg\<lparr>dll := Some h\<rparr>" and
    w2: "w2 = w\<lparr>events := events w @ [Dlopen ?path]\<rparr>"
    by (auto simp: load_function_def load_function_named_first[OF null]
        split: sum.splits option.splits)
  have h1: "dll cg1 = Some h" by (simp add: cg1)
  have fn1: "func_name cg1 = func_name cg" by (simp add: cg1)
  from load_function_times_cached[OF h1 rest] have
    same: "cg' = cg1" "w' = w2" and all: "\<forall>x \<in> set as'. dlsym h (func_name cg) = Some x"
    and len: "length as' = k"
    by (simp_all add: fn1)
  have "as' = replicate k a"
    using all len sym by (intro replicate_eqI) auto
  then show ?thesis using null0 ev op sym same cg1 w2 as by auto
qed

theorem load_function_opens_once_witness:
  "CodeGenBase 7 0 empty_world =
     Inr (kernel7, 8, \<lparr>files = Map.empty, events = [Create_directories ''_tlang_cache/'']\<rparr>) \<and>
   dll kernel7_cpp = dll kernel7 \<and>
   load_function_times 3 Other_platform one_library one_symbol kernel7_cpp empty_world =
     Inr ([4096, 4096, 4096], kernel7_cpp\<lparr>dll := Some 3\<rparr>,
          \<lparr>files = Map.empty, events = [Dlopen ''./_tlang_cache//tmp0007.cpp.so'']\<rparr>)"
proof -
  have b: "dll kernel7_cpp = dll kernel7" by (simp add: kernel7_cpp_def)
  have lib: "get_library_fn Other_platform kernel7_cpp = ''_tlang_cache//tmp0007.cpp.so''"
    by (simp add: kernel7_cpp_def kernel7_def get_source_name_def fmt_0d_4_7)
  have fn: "func_name kernel7_cpp = ''func000007''" "dll kernel7_cpp = None"
    by (simp_all add: kernel7_cpp_def kernel7_def)
  let ?w = "\<lparr>files = Map.empty, events = [Dlopen ''./_tlang_cache//tmp0007.cpp.so'']\<rparr>"
  have one: "load_function Other_platform one_library one_symbol kernel7_cpp empty_world =
     Inr (4096, kernel7_cpp\<lparr>dll := Some 3\<rparr>, ?w)"
    by (simp add: load_function_def load_function_named_first lib fn one_library_def
        one_symbol_def empty_world_def del: get_library_fn.simps)
  have more: "load_function Other_platform one_library one_symbol (kernel7_cpp\<lparr>dll := Some 3\<rparr>) ?w =
     Inr (4096, kernel7_cpp\<lparr>dll := Some 3\<rparr>, ?w)"
    by (simp add: load_function_def load_function_named_cached[where h = 3] fn one_symbol_def)
  have c: "load_function_times (Suc 2) Other_platform one_library one_symbol kernel7_cpp empty_world =
     Inr ([4096, 4096, 4096], kernel7_cpp\<lparr>dll := Some 3\<rparr>, ?w)"
    by (simp add: numeral_2_eq_2 one more)
  show ?thesis
    using load_function_opens_once[OF CodeGenBase_7 b c] CodeGenBase_7 b c
    by (simp add: numeral_3_eq_3 numeral_2_eq_2)
qed

text \<open>
  C7. \<open>load_function\<close> ends in a fatal error, and so returns no address, in two cases. When
  the handle is null and \<open>dlopen\<close> fails at the path of the library, the error is the one
  raised by \<open>TC_ERROR\<close> and carries the message of \<open>dlerror\<close>. When a handle is there, cached
  or just opened, and \<open>dlsym\<close> finds no symbol of the requested name in it, the error is the
  failed assertion on the result. The name \<open>load_function\<close> asks for is the function name
  of the instance.
\<close>

theorem load_function_fails_fatally:
  "(dll cg = None \<and> dlopen (''./'' @ get_library_fn p cg) = Inl msg \<longrightarrow>
      load_function_named p dlopen dlsym name cg w = Inl (Fatal_error msg)) \<and>
   ((dll cg = Some h \<or> dll cg = None \<and> dlopen (''./'' @ get_library_fn p cg) = Inr h) \<and>
      dlsym h name = None \<longrightarrow>
      load_function_named p dlopen dlsym name cg w = Inl (Assertion_failed ''ret != nullptr'')) \<and>
   load_function p dlopen dlsym cg w = load_function_named p dlopen dlsym (func_name cg) cg w"
proof (intro conjI impI)
  assume "dll cg = None \<and> dlopen (''./'' @ get_library_fn p cg) = Inl msg"
  then show "load_function_named p dlopen dlsym name cg w = Inl (Fatal_error msg)"
    by (simp add: load_function_named_first)
next
  assume a: "(dll cg = Some h \<or> dll cg = None \<and> dlopen (''./'' @ get_library_fn p cg) = Inr h) \<and>
      dlsym h name = None"
  then have sym: "dlsym h name = None"
    and d: "dll cg = Some h \<or> dll cg = None \<and> dlopen (''./'' @ get_library_fn p cg) = Inr h"
    by (rule conjunct2, rule conjunct1)
  from d show "load_function_named p dlopen dlsym name cg w = Inl (Assertion_failed ''ret != nullptr'')"
  proof (elim disjE conjE)
    assume "dll cg = Some h"
    then show ?thesis using sym by (simp add: load_function_named_cached)
  next
    assume "dll cg = None" "dlopen (''./'' @ get_library_fn p cg) = Inr h"
    then show ?thesis using sym by (simp add: load_function_named_first)
  qed
next
  show "load_function p dlopen dlsym cg w = load_function_named p dlopen dlsym (func_name cg) cg w"
    by (simp add: load_function_def)
qed

theorem load_function_fails_fatally_witness:
  "dll kernel7_cpp = None \<and>
   one_library (''./'' @ get_library_fn OSX kernel7_cpp) =
     Inl ''./_tlang_cache//tmp0007.dylib: cannot open shared object file'' \<and>
   load_function OSX one_library one_symbol kernel7_cpp empty_world =
     Inl (Fatal_error ''./_tlang_cache//tmp0007.dylib: cannot open shared object file'') \<and>
   one_library (''./'' @ get_library_fn Other_platform kernel7_cpp) = Inr 3 \<and>
   no_symbol 3 (func_name kernel7_cpp) = None \<and>
   load_function Other_platform one_library no_symbol kernel7_cpp empty_world =
     Inl (Assertion_failed ''ret != nullptr'')"
proof -
  have n: "dll kernel7_cpp = None" by (simp add: kernel7_cpp_def kernel7_def)
  have osx: "get_library_fn OSX kernel7_cpp = ''_tlang_cache//tmp0007.dylib''"
    by (simp add: kernel7_cpp_def kernel7_def fmt_0d_4_7)
  have lib: "get_library_fn Other_platform kernel7_cpp = ''_tlang_cache//tmp0007.cpp.so''"
    by (simp add: kernel7_cpp_def kernel7_def get_source_name_def fmt_0d_4_7)
  have a: "one_library (''./'' @ get_library_fn OSX kernel7_cpp) =
     Inl ''./_tlang_cache//tmp0007.dylib: cannot open shared object file''"
    unfolding osx by (simp add: one_library_def)
  have b: "one_library (''./'' @ get_library_fn Other_platform kernel7_cpp) = Inr 3"
    unfolding lib by (simp add: one_library_def)
  have c: "no_symbol 3 (func_name kernel7_cpp) = None" by (simp add: no_symbol_def)
  show ?thesis
    using load_function_fails_fatally[of kernel7_cpp one_library OSX
            "''./_tlang_cache//tmp0007.dylib: cannot open shared object file''"
            one_symbol "func_name kernel7_cpp" empty_world 3]
          load_function_fails_fatally[of kernel7_cpp one_library Other_platform
            "''x''" no_symbol "func_name kernel7_cpp" empty_world 3]
          n a b c
    by simp
qed

subsection \<open>The text of the source file\<close>

text \<open>The list \<open>all_regions\<close> holds every enumerator once, by increasing value, so going
  through it is going through the keys of the map in the order of \<open>operator<\<close>.\<close>

lemma all_regions_by_value:
  "map region_index all_regions = [0, 1, 2, 3, 4, 5, 6, 7, 8, 9, 10, 11, 12, 13]"
  by (simp add: all_regions_def)

lemma all_regions_complete: "r \<in> set all_regions"
  by (cases r) (simp_all add: all_regions_def)

lemma region_index_inj: "region_index a = region_index b \<Longrightarrow> a = b"
  by (cases a; cases b) simp_all

lemma foldl_append_concat: "foldl (\<lambda>out k. out @ g k) acc xs = acc @ concat (map g xs)"
  by (induction xs arbitrary: acc) simp_all

lemma concat_map_filter:
  "concat (map g (List.map_filter h xs)) =
     concat (map (\<lambda>x. case h x of None \<Rightarrow> [] | Some y \<Rightarrow> g y) xs)"
  by (induction xs) (simp_all add: List.map_filter_simps split: option.splits)

lemma source_text_concat:
  "source_text m =
     concat (map (\<lambda>r. case m r of None \<Rightarrow> []
                        | Some t \<Rightarrow> ''// region '' @ get_region_name r @ [newline] @ t)
               all_regions)"
proof -
  have "source_text m =
     concat (map (\<lambda>k. ''// region '' @ get_region_name (fst k) @ [newline] @ snd k)
       (List.map_filter (\<lambda>r. map_option (Pair r) (m r)) all_regions))"
    unfolding source_text_def codes_items_def foldl_append_concat by simp
  also have "\<dots> = concat (map (\<lambda>r. case map_option (Pair r) (m r) of None \<Rightarrow> []
                 | Some k \<Rightarrow> ''// region '' @ get_region_name (fst k) @ [newline] @ snd k)
               all_regions)"
    by (rule concat_map_filter)
  also have "\<dots> = concat (map (\<lambda>r. case m r of None \<Rightarrow> []
                        | Some t \<Rightarrow> ''// region '' @ get_region_name r @ [newline] @ t)
               all_regions)"
    by (intro arg_cong[where f = concat] map_cong refl) (simp split: option.splits)
  finally show ?thesis .
qed

lemma region_name_no_newline: "newline \<notin> set (get_region_name r)"
  by (cases r) simp_all

lemma marker_not_debug: "str_find ''debug'' (''// region '' @ get_region_name r) = None"
  by (cases r) simp_all

lemma getline_line: "newline \<notin> set a \<Longrightarrow> getline (a @ newline # b) = a"
  by (induction a) (auto simp: getline_def)

lemma getline_blocks:
  "getline (concat (map (\<lambda>r. case m r of None \<Rightarrow> []
                        | Some t \<Rightarrow> ''// region '' @ get_region_name r @ [newline] @ t) rs)) = []
   \<or> (\<exists>r. getline (concat (map (\<lambda>r. case m r of None \<Rightarrow> []
                        | Some t \<Rightarrow> ''// region '' @ get_region_name r @ [newline] @ t) rs)) =
            ''// region '' @ get_region_name r)"
  (is "?P rs")
proof (induction rs)
  case Nil
  then show ?case by (simp add: getline_def)
next
  case (Cons r rs)
  show ?case
  proof (cases "m r")
    case None
    then show ?thesis using Cons.IH by simp
  next
    case (Some t)
    let ?rest = "concat (map (\<lambda>r. case m r of None \<Rightarrow> []
                        | Some t \<Rightarrow> ''// region '' @ get_region_name r @ [newline] @ t) rs)"
    have "newline \<notin> set (''// region '' @ get_region_name r)"
      using region_name_no_newline[of r] by simp
    then have "getline ((''// region '' @ get_region_name r) @ newline # (t @ ?rest)) =
                 ''// region '' @ get_region_name r"
      by (rule getline_line)
    then have "\<exists>r'. getline ((''// region '' @ get_region_name r) @ newline # (t @ ?rest)) =
                 ''// region '' @ get_region_name r'"
      by blast
    then show ?thesis using Some by simp
  qed
qed

text \<open>What \<open>write_source\<close> writes never has the debug marker in its first line: that line
  is a marker line of a region, or the text is empty.\<close>

lemma source_text_not_debug_marked: "\<not> debug_marked (Some (source_text m))"
  using getline_blocks[of m all_regions] marker_not_debug
  by (auto simp: debug_marked_def first_line_def source_text_concat)

lemma source_text_explicit:
  "source_text m =
     concat (map (\<lambda>(r, name). case m r of
                                         None \<Rightarrow> []
                                       | Some t \<Rightarrow> ''// region '' @ name @ [newline] @ t)
                       [(header, ''header''),
                        (exterior_shared_variable_begin, ''exterior_shared_variable_begin''),
                        (exterior_loop_begin, ''exterior_loop_begin''),
                        (interior_shared_variable_begin, ''interior_shared_variable_begin''),
                        (interior_loop_begin, ''interior_loop_begin''),
                        (body, ''body''),
                        (interior_loop_end, ''interior_loop_end''),
                        (residual_begin, ''residual_begin''),
                        (residual_body, ''residual_body''),
                        (residual_end, ''residual_end''),
                        (interior_shared_variable_end, ''interior_shared_variable_end''),
                        (exterior_loop_end, ''exterior_loop_end''),
                        (exterior_shared_variable_end, ''exterior_shared_variable_end''),
                        (tail, ''tail'')])"
  by (simp add: source_text_concat all_regions_def cong: option.case_cong)

lemma write_source_unmarked:
  "\<not> debug_marked (files w (gsf cg)) \<Longrightarrow> opens (gsf cg) \<Longrightarrow>
     write_source sys opens gsf cg w =
       w\<lparr>files := sys (''clang-format -i '' @ gsf cg)
                        (sys (''cp '' @ gsf cg @ '' '' @ gsf cg @ ''_unformated'')
                           ((files w)(gsf cg \<mapsto> source_text (codes cg)))),
             events := events w @
                        [System (''cp '' @ gsf cg @ '' '' @ gsf cg @ ''_unformated''),
                         System (''clang-format -i '' @ gsf cg)]\<rparr>"
  by (simp add: write_source_def write_regions_def system_def Let_def)

text \<open>When the stream does not open, the copy and the formatter run on the files as they
  were.\<close>

lemma write_source_open_fails:
  "\<not> debug_marked (files w (gsf cg)) \<Longrightarrow> \<not> opens (gsf cg) \<Longrightarrow>
     write_source sys opens gsf cg w =
       w\<lparr>files := sys (''clang-format -i '' @ gsf cg) (sys (''cp '' @ gsf cg @ '' '' @ gsf cg @ ''_unformated'') (files w)),
         events := events w @ [System (''cp '' @ gsf cg @ '' '' @ gsf cg @ ''_unformated''), System (''clang-format -i '' @ gsf cg)]\<rparr>"
  by (simp add: write_source_def write_regions_def system_def Let_def)

text \<open>
  C8. Call \<open>write_source\<close> twice with the same buffer. At each call the target file has no
  debug marker in its first line and the output stream opens (\<open>opens\<close> at the first
  call, \<open>opens'\<close> at the second). Then each call replaces the target file by the same
  text, and it is on that text that the copy and then the formatter run: the text of the
  regions that have an entry, in the order of the declaration, each after its marker line.
\<close>

theorem write_source_twice_same_bytes:
  assumes "\<not> debug_marked (files w (gsf cg))"
      and "opens (gsf cg)"
      and "\<not> debug_marked (files (write_source sys opens gsf cg w) (gsf cg))"
      and "opens' (gsf cg)"
  shows "write_source sys opens gsf cg w =
           w\<lparr>files := sys (''clang-format -i '' @ gsf cg)
                        (sys (''cp '' @ gsf cg @ '' '' @ gsf cg @ ''_unformated'')
                           ((files w)(gsf cg \<mapsto>
                             concat (map (\<lambda>(r, name). case codes cg r of
                                                None \<Rightarrow> []
                                              | Some t \<Rightarrow> ''// region '' @ name @ [newline] @ t)
                              [(header, ''header''),
                               (exterior_shared_variable_begin, ''exterior_shared_variable_begin''),
                               (exterior_loop_begin, ''exterior_loop_begin''),
                               (interior_shared_variable_begin, ''interior_shared_variable_begin''),
                               (interior_loop_begin, ''interior_loop_begin''),
                               (body, ''body''),
                               (interior_loop_end, ''interior_loop_end''),
                               (residual_begin, ''residual_begin''),
                               (residual_body, ''residual_body''),
                               (residual_end, ''residual_end''),
                               (interior_shared_variable_end, ''interior_shared_variable_end''),
                               (exterior_loop_end, ''exterior_loop_end''),
                               (exterior_shared_variable_end, ''exterior_shared_variable_end''),
                               (tail, ''tail'')])))),
             events := events w @
                        [System (''cp '' @ gsf cg @ '' '' @ gsf cg @ ''_unformated''),
                         System (''clang-format -i '' @ gsf cg)]\<rparr> \<and>
         write_source sys opens' gsf cg (write_source sys opens gsf cg w) =
           (write_source sys opens gsf cg w)\<lparr>files := sys (''clang-format -i '' @ gsf cg)
                        (sys (''cp '' @ gsf cg @ '' '' @ gsf cg @ ''_unformated'')
                           ((files (write_source sys opens gsf cg w))(gsf cg \<mapsto>
                             concat (map (\<lambda>(r, name). case codes cg r of
                                                None \<Rightarrow> []
                                              | Some t \<Rightarrow> ''// region '' @ name @ [newline] @ t)
                              [(header, ''header''),
                               (exterior_shared_variable_begin, ''exterior_shared_variable_begin''),
                               (exterior_loop_begin, ''exterior_loop_begin''),
                               (interior_shared_variable_begin, ''interior_shared_variable_begin''),
                               (interior_loop_begin, ''interior_loop_begin''),
                               (body, ''body''),
                               (interior_loop_end, ''interior_loop_end''),
                               (residual_begin, ''residual_begin''),
                               (residual_body, ''residual_body''),
                               (residual_end, ''residual_end''),
                               (interior_shared_variable_end, ''interior_shared_variable_end''),
                               (exterior_loop_end, ''exterior_loop_end''),
                               (exterior_shared_variable_end, ''exterior_shared_variable_end''),
                               (tail, ''tail'')])))),
             events := events (write_source sys opens gsf cg w) @
                        [System (''cp '' @ gsf cg @ '' '' @ gsf cg @ ''_unformated''),
                         System (''clang-format -i '' @ gsf cg)]\<rparr>"
  using write_source_unmarked[where gsf = gsf and cg = cg and w = w and sys = sys
      and opens = opens, OF assms(1,2)]
    write_source_unmarked[where gsf = gsf and cg = cg and w = "write_source sys opens gsf cg w"
      and sys = sys and opens = opens', OF assms(3,4)]
  unfolding source_text_explicit
  by (intro conjI)

lemma get_source_fn_two_regions: "get_source_fn two_regions = ''_tlang_cache/tmp0007.cpp''"
  by (simp add: get_source_fn_def get_source_name_def two_regions_def kernel7_cpp_def kernel7_def
      fmt_0d_4_7)

lemma codes_two_regions:
  "codes two_regions = [body \<mapsto> ''x = 1;'' @ [newline], header \<mapsto> ''y = 2;'' @ [newline]]"
  by (simp add: two_regions_def)

lemma opens_source_fn_two_regions: "opens_in_cache (get_source_fn two_regions)"
  by (simp add: get_source_fn_two_regions opens_in_cache_def)

text \<open>On the machine where no file opens, writing the source of kernel 7 leaves no file
  behind; the two commands are run all the same.\<close>

lemma write_source_open_fails_example:
  "write_source no_tools opens_nothing get_source_fn two_regions empty_world =
     \<lparr>files = Map.empty,
      events = [System ''cp _tlang_cache/tmp0007.cpp _tlang_cache/tmp0007.cpp_unformated'',
                System ''clang-format -i _tlang_cache/tmp0007.cpp'']\<rparr>"
proof -
  have a: "\<not> debug_marked (files empty_world (get_source_fn two_regions))"
    by (simp add: empty_world_def debug_marked_def first_line_def)
  have b: "\<not> opens_nothing (get_source_fn two_regions)"
    by (simp add: opens_nothing_def)
  show ?thesis
    using write_source_open_fails[where gsf = get_source_fn and cg = two_regions
        and w = empty_world and sys = no_tools and opens = opens_nothing, OF a b]
    by (simp add: get_source_fn_two_regions no_tools_def empty_world_def)
qed

theorem write_source_twice_same_bytes_witness:
  "\<not> debug_marked (files empty_world (get_source_fn two_regions)) \<and>
   opens_in_cache (get_source_fn two_regions) \<and>
   \<not> debug_marked
       (files (write_source no_tools opens_in_cache get_source_fn two_regions empty_world)
          (get_source_fn two_regions)) \<and>
   files (write_source no_tools opens_in_cache get_source_fn two_regions empty_world)
     ''_tlang_cache/tmp0007.cpp'' =
     Some (''// region header'' @ [newline] @ ''y = 2;'' @ [newline] @
           ''// region body'' @ [newline] @ ''x = 1;'' @ [newline]) \<and>
   files (write_source no_tools opens_in_cache get_source_fn two_regions
            (write_source no_tools opens_in_cache get_source_fn two_regions empty_world))
     ''_tlang_cache/tmp0007.cpp'' =
     Some (''// region header'' @ [newline] @ ''y = 2;'' @ [newline] @
           ''// region body'' @ [newline] @ ''x = 1;'' @ [newline])"
proof -
  let ?w1 = "write_source no_tools opens_in_cache get_source_fn two_regions empty_world"
  have a: "\<not> debug_marked (files empty_world (get_source_fn two_regions))"
    by (simp add: empty_world_def debug_marked_def first_line_def)
  have o: "opens_in_cache (get_source_fn two_regions)"
    by (rule opens_source_fn_two_regions)
  have "files ?w1 (get_source_fn two_regions) = Some (source_text (codes two_regions))"
    using write_source_unmarked[where gsf = get_source_fn and cg = two_regions
        and w = empty_world and sys = no_tools and opens = opens_in_cache, OF a o]
    by (simp add: no_tools_def)
  then have b: "\<not> debug_marked (files ?w1 (get_source_fn two_regions))"
    by (simp add: source_text_not_debug_marked)
  note t = write_source_twice_same_bytes[where gsf = get_source_fn and cg = two_regions
        and w = empty_world and sys = no_tools and opens = opens_in_cache
        and opens' = opens_in_cache, OF a o b o]
  have c: "files ?w1 ''_tlang_cache/tmp0007.cpp'' =
     Some (''// region header'' @ [newline] @ ''y = 2;'' @ [newline] @
           ''// region body'' @ [newline] @ ''x = 1;'' @ [newline])"
    using t[THEN conjunct1]
    by (simp add: get_source_fn_two_regions codes_two_regions no_tools_def)
  have d: "files (write_source no_tools opens_in_cache get_source_fn two_regions ?w1)
     ''_tlang_cache/tmp0007.cpp'' =
     Some (''// region header'' @ [newline] @ ''y = 2;'' @ [newline] @
           ''// region body'' @ [newline] @ ''x = 1;'' @ [newline])"
    using t[THEN conjunct2] c
    by (simp add: get_source_fn_two_regions codes_two_regions no_tools_def)
  show ?thesis using a o b c d by (intro conjI)
qed

subsection \<open>Interleaved emission\<close>

lemma exec_emit_in:
  "exec fmt (emit_in (r, f, args)) cg =
     (case fmt f args of
        None \<Rightarrow> Inl Format_error
      | Some text \<Rightarrow>
          Inr (cg\<lparr>codes := (codes cg)(r \<mapsto>
                 (case codes cg r of None \<Rightarrow> [] | Some old \<Rightarrow> old) @ text @ line_suffix cg)\<rparr>))"
  by (cases cg)
    (simp add: emit_in_def get_region_guard_def guard_destroy_def emit_def Let_def
      split: option.splits)

lemma emit_seq_Cons:
  "emit_seq fmt (e # es) cg =
     (case exec fmt (emit_in e) cg of Inl err \<Rightarrow> Inl err | Inr cg1 \<Rightarrow> emit_seq fmt es cg1)"
  by (simp add: emit_seq_def split: sum.splits)

lemma emit_seq_codes:
  "emit_seq fmt es cg = Inr cg' \<Longrightarrow>
     cg' = cg\<lparr>codes := codes cg'\<rparr> \<and>
     (\<forall>r. codes cg' r =
        (if filter (\<lambda>e. fst e = r) es = [] then codes cg r
         else Some ((case codes cg r of None \<Rightarrow> [] | Some old \<Rightarrow> old) @
                concat (map (\<lambda>e. the (fmt (fst (snd e)) (snd (snd e))) @ line_suffix cg)
                          (filter (\<lambda>e. fst e = r) es)))))"
proof (induction es arbitrary: cg)
  case Nil
  then show ?case by (simp add: emit_seq_def)
next
  case (Cons e es)
  obtain r0 f args where e: "e = (r0, f, args)" by (cases e)
  from Cons.prems obtain line where
    t: "fmt f args = Some line" and
    rest: "emit_seq fmt es (cg\<lparr>codes := (codes cg)(r0 \<mapsto>
                 (case codes cg r0 of None \<Rightarrow> [] | Some old \<Rightarrow> old) @ line @ line_suffix cg)\<rparr>)
             = Inr cg'"
    by (auto simp: emit_seq_Cons e exec_emit_in split: option.splits)
  let ?cg1 = "cg\<lparr>codes := (codes cg)(r0 \<mapsto>
                 (case codes cg r0 of None \<Rightarrow> [] | Some old \<Rightarrow> old) @ line @ line_suffix cg)\<rparr>"
  from Cons.IH[OF rest] have
    only: "cg' = ?cg1\<lparr>codes := codes cg'\<rparr>" and
    per: "\<And>r. codes cg' r =
        (if filter (\<lambda>e. fst e = r) es = [] then codes ?cg1 r
         else Some ((case codes ?cg1 r of None \<Rightarrow> [] | Some old \<Rightarrow> old) @
                concat (map (\<lambda>e. the (fmt (fst (snd e)) (snd (snd e))) @ line_suffix ?cg1)
                          (filter (\<lambda>e. fst e = r) es))))"
    by blast+
  have a: "cg' = cg\<lparr>codes := codes cg'\<rparr>"
    using only by (cases cg; cases cg') simp
  have b: "codes cg' r =
        (if filter (\<lambda>e. fst e = r) (e # es) = [] then codes cg r
         else Some ((case codes cg r of None \<Rightarrow> [] | Some old \<Rightarrow> old) @
                concat (map (\<lambda>e. the (fmt (fst (snd e)) (snd (snd e))) @ line_suffix cg)
                          (filter (\<lambda>e. fst e = r) (e # es)))))" for r
    using per[of r] t by (simp add: e)
  show ?case using a b by blast
qed

text \<open>
  C1. Let the buffer be what any sequence of emit calls, each made under the guard of its
  region, leaves. Each entry then holds what the entry held before followed by the lines
  emitted for that region, in the order of the calls for that region only; so another
  interleaving of the same calls leaves the same instance. When no debug marker
  suppresses the write and the output stream opens, \<open>write_source\<close> replaces the target
  file by the following text, and it is on that text that the copy and then the formatter
  run: for each region from \<open>header\<close> to \<open>tail\<close> in the order of the declaration, and only
  if the buffer has an entry for it, the line \<open>// region\<close> with the name of the region, then
  the text of the entry, unchanged.
\<close>

theorem write_source_regions_in_order:
  assumes "emit_seq fmt es cg0 = Inr cg"
      and "\<not> debug_marked (files w (gsf cg))"
      and "opens (gsf cg)"
  shows "write_source sys opens gsf cg w =
           w\<lparr>files := sys (''clang-format -i '' @ gsf cg)
                        (sys (''cp '' @ gsf cg @ '' '' @ gsf cg @ ''_unformated'')
                           ((files w)(gsf cg \<mapsto> concat (map (\<lambda>(r, name). case codes cg r of
                                         None \<Rightarrow> []
                                       | Some t \<Rightarrow> ''// region '' @ name @ [newline] @ t)
                       [(header, ''header''),
                        (exterior_shared_variable_begin, ''exterior_shared_variable_begin''),
                        (exterior_loop_begin, ''exterior_loop_begin''),
                        (interior_shared_variable_begin, ''interior_shared_variable_begin''),
                        (interior_loop_begin, ''interior_loop_begin''),
                        (body, ''body''),
                        (interior_loop_end, ''interior_loop_end''),
                        (residual_begin, ''residual_begin''),
                        (residual_body, ''residual_body''),
                        (residual_end, ''residual_end''),
                        (interior_shared_variable_end, ''interior_shared_variable_end''),
                        (exterior_loop_end, ''exterior_loop_end''),
                        (exterior_shared_variable_end, ''exterior_shared_variable_end''),
                        (tail, ''tail'')])))),
             events := events w @
                        [System (''cp '' @ gsf cg @ '' '' @ gsf cg @ ''_unformated''),
                         System (''clang-format -i '' @ gsf cg)]\<rparr> \<and>
         (\<forall>r. codes cg r =
            (if filter (\<lambda>e. fst e = r) es = [] then codes cg0 r
             else Some ((case codes cg0 r of None \<Rightarrow> [] | Some old \<Rightarrow> old) @
                    concat (map (\<lambda>e. the (fmt (fst (snd e)) (snd (snd e))) @ line_suffix cg0)
                              (filter (\<lambda>e. fst e = r) es))))) \<and>
         (\<forall>es' cg'. emit_seq fmt es' cg0 = Inr cg' \<and>
              (\<forall>r. filter (\<lambda>e. fst e = r) es' = filter (\<lambda>e. fst e = r) es) \<longrightarrow>
              cg' = cg)"
proof (intro conjI allI impI)
  show "write_source sys opens gsf cg w =
           w\<lparr>files := sys (''clang-format -i '' @ gsf cg)
                        (sys (''cp '' @ gsf cg @ '' '' @ gsf cg @ ''_unformated'')
                           ((files w)(gsf cg \<mapsto> concat (map (\<lambda>(r, name). case codes cg r of
                                         None \<Rightarrow> []
                                       | Some t \<Rightarrow> ''// region '' @ name @ [newline] @ t)
                       [(header, ''header''),
                        (exterior_shared_variable_begin, ''exterior_shared_variable_begin''),
                        (exterior_loop_begin, ''exterior_loop_begin''),
                        (interior_shared_variable_begin, ''interior_shared_variable_begin''),
                        (interior_loop_begin, ''interior_loop_begin''),
                        (body, ''body''),
                        (interior_loop_end, ''interior_loop_end''),
                        (residual_begin, ''residual_begin''),
                        (residual_body, ''residual_body''),
                        (residual_end, ''residual_end''),
                        (interior_shared_variable_end, ''interior_shared_variable_end''),
                        (exterior_loop_end, ''exterior_loop_end''),
                        (exterior_shared_variable_end, ''exterior_shared_variable_end''),
                        (tail, ''tail'')])))),
             events := events w @
                        [System (''cp '' @ gsf cg @ '' '' @ gsf cg @ ''_unformated''),
                         System (''clang-format -i '' @ gsf cg)]\<rparr>"
    using write_source_unmarked[where gsf = gsf and cg = cg and w = w and sys = sys
        and opens = opens, OF assms(2,3)]
    unfolding source_text_explicit .
next
  fix r
  show "codes cg r =
            (if filter (\<lambda>e. fst e = r) es = [] then codes cg0 r
             else Some ((case codes cg0 r of None \<Rightarrow> [] | Some old \<Rightarrow> old) @
                    concat (map (\<lambda>e. the (fmt (fst (snd e)) (snd (snd e))) @ line_suffix cg0)
                              (filter (\<lambda>e. fst e = r) es))))"
    using emit_seq_codes[OF assms(1)] by blast
next
  fix es' cg'
  assume h: "emit_seq fmt es' cg0 = Inr cg' \<and>
              (\<forall>r. filter (\<lambda>e. fst e = r) es' = filter (\<lambda>e. fst e = r) es)"
  then have run: "emit_seq fmt es' cg0 = Inr cg'"
    and same: "\<And>r. filter (\<lambda>e. fst e = r) es' = filter (\<lambda>e. fst e = r) es"
    by blast+
  have "codes cg' r = codes cg r" for r
    using emit_seq_codes[OF run] emit_seq_codes[OF assms(1)] same[of r] by simp
  then have "codes cg' = codes cg" by (rule ext)
  moreover have "cg' = cg0\<lparr>codes := codes cg'\<rparr>" "cg = cg0\<lparr>codes := codes cg\<rparr>"
    using emit_seq_codes[OF run] emit_seq_codes[OF assms(1)] by blast+
  ultimately show "cg' = cg" by simp
qed

theorem write_source_regions_in_order_witness:
  "emit_seq plain_fmt body_then_header kernel7_cpp = Inr two_regions \<and>
   \<not> debug_marked (files empty_world (get_source_fn two_regions)) \<and>
   opens_in_cache (get_source_fn two_regions) \<and>
   write_source no_tools opens_in_cache get_source_fn two_regions empty_world =
     \<lparr>files = [''_tlang_cache/tmp0007.cpp'' \<mapsto>
                  ''// region header'' @ [newline] @ ''y = 2;'' @ [newline] @
                  ''// region body'' @ [newline] @ ''x = 1;'' @ [newline]],
      events = [System ''cp _tlang_cache/tmp0007.cpp _tlang_cache/tmp0007.cpp_unformated'',
                System ''clang-format -i _tlang_cache/tmp0007.cpp'']\<rparr> \<and>
   codes two_regions header = Some (''y = 2;'' @ [newline]) \<and>
   emit_seq plain_fmt header_then_body kernel7_cpp = Inr two_regions"
proof -
  have a: "emit_seq plain_fmt body_then_header kernel7_cpp = Inr two_regions"
    by (simp add: emit_seq_Cons exec_emit_in body_then_header_def plain_fmt_def two_regions_def
        kernel7_cpp_def kernel7_def emit_seq_def)
  have b: "\<not> debug_marked (files empty_world (get_source_fn two_regions))"
    by (simp add: empty_world_def debug_marked_def first_line_def)
  have o: "opens_in_cache (get_source_fn two_regions)"
    by (rule opens_source_fn_two_regions)
  note t = write_source_regions_in_order[where gsf = get_source_fn and w = empty_world
      and sys = no_tools and opens = opens_in_cache, OF a b o]
  have c: "write_source no_tools opens_in_cache get_source_fn two_regions empty_world =
     \<lparr>files = [''_tlang_cache/tmp0007.cpp'' \<mapsto>
                  ''// region header'' @ [newline] @ ''y = 2;'' @ [newline] @
                  ''// region body'' @ [newline] @ ''x = 1;'' @ [newline]],
      events = [System ''cp _tlang_cache/tmp0007.cpp _tlang_cache/tmp0007.cpp_unformated'',
                System ''clang-format -i _tlang_cache/tmp0007.cpp'']\<rparr>"
    using t[THEN conjunct1]
    by (simp add: get_source_fn_two_regions no_tools_def codes_two_regions empty_world_def)
  have d: "codes two_regions header = Some (''y = 2;'' @ [newline])"
    using t[THEN conjunct2, THEN conjunct1, THEN spec, of header]
    by (simp add: body_then_header_def plain_fmt_def kernel7_cpp_def kernel7_def)
  obtain cg' where run: "emit_seq plain_fmt header_then_body kernel7_cpp = Inr cg'"
    by (simp add: emit_seq_Cons exec_emit_in header_then_body_def plain_fmt_def emit_seq_def)
  have same: "\<forall>r. filter (\<lambda>e. fst e = r) header_then_body = filter (\<lambda>e. fst e = r) body_then_header"
    by (auto simp: header_then_body_def body_then_header_def)
  have "cg' = two_regions"
    using t[THEN conjunct2, THEN conjunct2, THEN spec, THEN spec, of header_then_body cg']
      run same by blast
  then have e: "emit_seq plain_fmt header_then_body kernel7_cpp = Inr two_regions"
    using run by simp
  show ?thesis using a b o c d e by (intro conjI)
qed

end
